theory Spec2Isabelle
  imports Main "HOL-Library.Sublist"
begin

section \<open>Python strings\<close>

text \<open>
  A Python \<open>str\<close> is a \<open>string\<close> whose characters are the code points below 256;
  \<open>str.lower\<close>, \<open>str.split\<close> and the pattern syntax of \<open>re\<close> are modelled on that
  range, where lowercasing works character by character and keeps the length.
\<close>

definition lower_char :: "char \<Rightarrow> char" where
  "lower_char c =
     (let n = (of_char c :: nat)
      in if (65 \<le> n \<and> n \<le> 90) \<or> (192 \<le> n \<and> n \<le> 222 \<and> n \<noteq> 215)
         then char_of (n + 32) else c)"

definition str_lower :: "string \<Rightarrow> string" where
  "str_lower s = map lower_char s"

text \<open>The characters \<open>str.split()\<close> and \<open>str.isspace\<close> treat as whitespace.\<close>

definition is_space :: "char \<Rightarrow> bool" where
  "is_space c =
     (let n = (of_char c :: nat)
      in (9 \<le> n \<and> n \<le> 13) \<or> (28 \<le> n \<and> n \<le> 32) \<or> n = 133 \<or> n = 160)"

text \<open>
  \<open>s.split()\<close> with no separator: the maximal runs of non-whitespace characters, in
  order. The first argument is the word being read, reversed.
\<close>

fun split_from :: "string \<Rightarrow> string \<Rightarrow> string list" where
  "split_from w [] = (if w = [] then [] else [rev w])"
| "split_from w (c # cs) =
     (if is_space c
      then (if w = [] then split_from [] cs else rev w # split_from [] cs)
      else split_from (c # w) cs)"

definition str_split :: "string \<Rightarrow> string list" where
  "str_split s = split_from [] s"

section \<open>Errors\<close>

text \<open>
  \<open>ValueError t l s\<close> is \<open>ValueError((t,), l, s)\<close> as \<open>find_model_name\<close> raises it: the
  message (wrapped in a one-element tuple by the source), the language and the model size.
  \<open>IndexError\<close> is what \<open>xs[0]\<close> raises on an empty list, \<open>AttributeError a\<close> what reading
  the unassigned attribute \<open>a\<close> raises, \<open>Re_Error\<close> is \<open>re.error\<close>.
  \<open>Pattern_Not_Modelled\<close> is no Python exception: it marks a pattern outside the part
  of the pattern syntax modelled below. \<open>Install_Failure\<close> and \<open>Load_Failure\<close> stand for
  whatever \<open>spacy.cli.download\<close> and \<open>spacy.load\<close> raise.
\<close>

datatype error =
    ValueError string string string
  | IndexError
  | AttributeError string
  | Re_Error string
  | Pattern_Not_Modelled
  | Install_Failure string
  | Load_Failure string

section \<open>The pattern matcher\<close>

text \<open>
  The part of Python's \<open>re\<close> that is modelled: ordinary characters, \<open>.\<close>, \<open>^\<close>, \<open>$\<close> and
  the greedy repeats \<open>*\<close>, \<open>+\<close>, \<open>?\<close> of one character or of \<open>.\<close>, with no flags. The parsed
  pattern is a sequence of items, as in \<open>sre_parse\<close>.
\<close>

datatype atom = Literal char | Any

datatype item =
    Atom atom
  | At_Beginning
  | At_End
  | Max_Repeat nat "nat option" atom

text \<open>\<open>SPECIAL_CHARS\<close> of \<open>sre_parse\<close>; \<open>CHR 0x5C\<close> is the backslash.\<close>

definition special_chars :: "char list" where
  "special_chars =
     [CHR ''.'', CHR 0x5C, CHR ''['', CHR ''{'', CHR ''('', CHR '')'', CHR ''*'',
      CHR ''+'', CHR ''?'', CHR ''^'', CHR ''$'', CHR ''|'']"

definition not_modelled_chars :: "char list" where
  "not_modelled_chars = [CHR 0x5C, CHR ''['', CHR ''{'', CHR ''('', CHR '')'', CHR ''|'']"

definition repeat_bounds :: "char \<Rightarrow> nat \<times> nat option" where
  "repeat_bounds c =
     (if c = CHR ''?'' then (0, Some 1) else if c = CHR ''*'' then (0, None) else (1, None))"

text \<open>
  The parser keeps the items read so far in reverse. A repeat applies to the last item:
  with none, or after \<open>^\<close> or \<open>$\<close>, it is "nothing to repeat"; after a repeat it
  is "multiple repeat". A repeat followed by \<open>?\<close> or \<open>+\<close> (lazy, possessive) is outside
  the model.
\<close>

fun parse :: "item list \<Rightarrow> string \<Rightarrow> error + item list" where
  "parse acc [] = Inr (rev acc)"
| "parse acc (c # cs) =
     (if c \<in> set not_modelled_chars then Inl Pattern_Not_Modelled
      else if c = CHR ''?'' \<or> c = CHR ''*'' \<or> c = CHR ''+'' then
        (case acc of
           [] \<Rightarrow> Inl (Re_Error ''nothing to repeat'')
         | At_Beginning # _ \<Rightarrow> Inl (Re_Error ''nothing to repeat'')
         | At_End # _ \<Rightarrow> Inl (Re_Error ''nothing to repeat'')
         | Max_Repeat _ _ _ # _ \<Rightarrow> Inl (Re_Error ''multiple repeat'')
         | Atom a # acc' \<Rightarrow>
             (case cs of
                [] \<Rightarrow> parse (Max_Repeat (fst (repeat_bounds c)) (snd (repeat_bounds c)) a # acc') cs
              | d # _ \<Rightarrow>
                  if d = CHR ''?'' \<or> d = CHR ''+'' then Inl Pattern_Not_Modelled
                  else parse (Max_Repeat (fst (repeat_bounds c)) (snd (repeat_bounds c)) a # acc') cs))
      else if c = CHR ''.'' then parse (Atom Any # acc) cs
      else if c = CHR ''^'' then parse (At_Beginning # acc) cs
      else if c = CHR ''$'' then parse (At_End # acc) cs
      else parse (Atom (Literal c) # acc) cs)"

definition re_compile :: "string \<Rightarrow> error + item list" where
  "re_compile pattern = parse [] pattern"

text \<open>\<open>.\<close> matches any character except a line feed.\<close>

fun atom_ok :: "atom \<Rightarrow> char \<Rightarrow> bool" where
  "atom_ok (Literal c) x = (x = c)"
| "atom_ok Any x = (x \<noteq> CHR 0x0A)"

text \<open>
  \<open>re_match_at items b s\<close>: the items match some prefix of \<open>s\<close>, where \<open>b\<close> says
  that \<open>s\<close> is the whole string (position 0). \<open>^\<close> matches at position 0 only, \<open>$\<close> at
  the end or before a line feed that ends the string. Whether a match exists does not
  depend on the order in which a backtracking matcher tries the repeats.
\<close>

function re_match_at :: "item list \<Rightarrow> bool \<Rightarrow> string \<Rightarrow> bool" where
  "re_match_at [] b s = True"
| "re_match_at (Atom a # items) b [] = False"
| "re_match_at (Atom a # items) b (x # xs) = (atom_ok a x \<and> re_match_at items False xs)"
| "re_match_at (At_Beginning # items) b s = (b \<and> re_match_at items b s)"
| "re_match_at (At_End # items) b s = ((s = [] \<or> s = [CHR 0x0A]) \<and> re_match_at items b s)"
| "re_match_at (Max_Repeat lo hi a # items) b [] = (lo = 0 \<and> re_match_at items b [])"
| "re_match_at (Max_Repeat lo hi a # items) b (x # xs) =
     ((lo = 0 \<and> re_match_at items b (x # xs)) \<or>
      (hi \<noteq> Some 0 \<and> atom_ok a x \<and>
       re_match_at (Max_Repeat (lo - 1) (map_option (\<lambda>h. h - 1) hi) a # items) False xs))"
  by pat_completeness auto
termination
  by (relation "measure (\<lambda>(items, b, s). length items + length s)") auto

text \<open>\<open>Pattern.match\<close> as a predicate (the result of \<open>filter\<close> keeps the truthy ones).\<close>

definition re_match :: "item list \<Rightarrow> string \<Rightarrow> bool" where
  "re_match regex s = re_match_at regex True s"

section \<open>Model resolution\<close>

definition combination_text :: string where
  "combination_text =
     ''Model not found for language and model size combination. Both language and'' @
     ''model size should be lower case 2 letter codes'' @
     ''Supported models: https://spacy.io/models''"

definition no_models_text :: "string \<Rightarrow> string" where
  "no_models_text language =
     ''No models found for language '' @ language @
     ''. Languages should be a lower case 2'' @
     ''letter code. Supported languages: https://spacy.io/models''"

text \<open>
  \<open>available_models\<close> is what \<open>get_available_models\<close> returns: the keys of spaCy's
  compatibility table, in iteration order.
\<close>

definition find_model_name :: "string list \<Rightarrow> string \<Rightarrow> string \<Rightarrow> error + string" where
  "find_model_name available_models language model_size =
     (let language = str_lower language;
          model_size = str_lower model_size
      in case re_compile (language @ ''.*'' @ model_size) of
           Inl e \<Rightarrow> Inl e
         | Inr regex \<Rightarrow>
             (let matched_models = filter (re_match regex) available_models
              in if length matched_models > 0 then Inr (matched_models ! 0)
                 else
                   (case re_compile (''^'' @ language) of
                      Inl e \<Rightarrow> Inl e
                    | Inr regex \<Rightarrow>
                        (let matched_models = filter (re_match regex) available_models
                         in if length matched_models > 0
                            then Inl (ValueError combination_text language model_size)
                            else Inl (ValueError (no_models_text language) language model_size)))))"

section \<open>The facade and its collaborators\<close>

text \<open>
  A token as the loaded pipeline annotates it: \<open>token.text\<close>, \<open>token.lemma_\<close>,
  \<open>token.is_alpha\<close>, \<open>token.is_stop\<close>.
\<close>

record token =
  token_text :: string
  token_lemma :: string
  token_is_alpha :: bool
  token_is_stop :: bool

text \<open>The loaded pipeline, called on a text, gives the tokens of the document in order.\<close>

type_synonym pipeline = "string \<Rightarrow> token list"

text \<open>
  The attributes of a \<open>LemonTizer\<close> object (\<open>_nlp\<close>, \<open>_model_name\<close> and the five
  settings). The class only annotates them, so an attribute exists once it has been
  assigned: \<open>None\<close> is an attribute not assigned yet.
\<close>

record LemonTizer =
  nlp :: "pipeline option"
  model_name :: "string option"
  filter_out_non_alpha :: "bool option"
  filter_out_common :: "bool option"
  convert_input_to_lower :: "bool option"
  convert_output_to_lower :: "bool option"
  return_just_first_word_of_lemma :: "bool option"

definition get_attr :: "string \<Rightarrow> 'a option \<Rightarrow> error + 'a" where
  "get_attr name v = (case v of None \<Rightarrow> Inl (AttributeError name) | Some x \<Rightarrow> Inr x)"

text \<open>The object before \<open>__init__\<close> has run.\<close>

definition uninitialized :: LemonTizer where
  "uninitialized =
     \<lparr>nlp = None, model_name = None, filter_out_non_alpha = None, filter_out_common = None,
      convert_input_to_lower = None, convert_output_to_lower = None,
      return_just_first_word_of_lemma = None\<rparr>"

text \<open>
  What the facade asks of spaCy: the keys of \<open>get_compatibility()\<close> in iteration order,
  \<open>spacy.util.is_package\<close>, \<open>spacy.cli.download\<close> and \<open>spacy.load\<close>. \<open>init_model\<close> calls
  \<open>spacy.load\<close> once, after the download when there is one, so \<open>spacy_load\<close> is the
  outcome of that call.
\<close>

record spacy_env =
  spacy_get_compatibility :: "string list"
  spacy_is_package :: "string \<Rightarrow> bool"
  spacy_cli_download :: "string \<Rightarrow> error + unit"
  spacy_load :: "string \<Rightarrow> error + pipeline"

definition get_available_models :: "spacy_env \<Rightarrow> string list" where
  "get_available_models env = spacy_get_compatibility env"

definition is_model_installed :: "spacy_env \<Rightarrow> string \<Rightarrow> bool" where
  "is_model_installed env name = spacy_is_package env name"

definition download_model :: "spacy_env \<Rightarrow> string \<Rightarrow> error + unit" where
  "download_model env name = spacy_cli_download env name"

definition set_lemma_settings ::
  "LemonTizer \<Rightarrow> bool \<Rightarrow> bool \<Rightarrow> bool \<Rightarrow> bool \<Rightarrow> bool \<Rightarrow> LemonTizer" where
  "set_lemma_settings self non_alpha common input_lower output_lower first_word =
     self\<lparr>filter_out_non_alpha := Some non_alpha,
          filter_out_common := Some common,
          convert_input_to_lower := Some input_lower,
          convert_output_to_lower := Some output_lower,
          return_just_first_word_of_lemma := Some first_word\<rparr>"

text \<open>\<open>_load_model\<close>: the name is stored before \<open>spacy.load\<close> is called.\<close>

definition load_model :: "spacy_env \<Rightarrow> LemonTizer \<Rightarrow> string \<Rightarrow> (error + unit) \<times> LemonTizer" where
  "load_model env self name =
     (let self = self\<lparr>model_name := Some name\<rparr>
      in case spacy_load env name of
           Inl e \<Rightarrow> (Inl e, self)
         | Inr p \<Rightarrow> (Inr (), self\<lparr>nlp := Some p\<rparr>))"

text \<open>
  \<open>init_model\<close> returns the outcome and the object as the call leaves it. The default
  settings are stored first, then the name is resolved, then the model is loaded.
\<close>

definition init_model ::
  "spacy_env \<Rightarrow> LemonTizer \<Rightarrow> string \<Rightarrow> string \<Rightarrow> (error + unit) \<times> LemonTizer" where
  "init_model env self language model_size =
     (let self = set_lemma_settings self False False False False False
      in case find_model_name (get_available_models env) language model_size of
           Inl e \<Rightarrow> (Inl e, self)
         | Inr name \<Rightarrow>
             if is_model_installed env name then load_model env self name
             else
               (case download_model env name of
                  Inl e \<Rightarrow> (Inl e, self)
                | Inr _ \<Rightarrow> load_model env self name))"

text \<open>
  The constructor: \<open>__init__\<close> calls \<open>init_model\<close> on the new object; when that raises,
  the caller gets no object.
\<close>

definition new_LemonTizer :: "spacy_env \<Rightarrow> string \<Rightarrow> string \<Rightarrow> error + LemonTizer" where
  "new_LemonTizer env language model_size =
     (case init_model env uninitialized language model_size of
        (Inl e, _) \<Rightarrow> Inl e
      | (Inr _, self) \<Rightarrow> Inr self)"

section \<open>Lemmatization\<close>

text \<open>Python's \<open>a and b\<close> on booleans: \<open>b\<close> is evaluated only when \<open>a\<close> is true.\<close>

definition py_and :: "bool \<Rightarrow> error + bool \<Rightarrow> error + bool" where
  "py_and a b = (if a then b else Inr False)"

text \<open>\<open>lemma.split()[0]\<close>: the first word, an \<open>IndexError\<close> when there is none.\<close>

definition first_word :: "string \<Rightarrow> error + string" where
  "first_word lemma = (case str_split lemma of [] \<Rightarrow> Inl IndexError | w # _ \<Rightarrow> Inr w)"

text \<open>
  The body of the loop over the tokens: \<open>Inr None\<close> when the token is skipped
  (\<open>continue\<close>), \<open>Inr (Some d)\<close> with the entry \<open>{token.text: lemma}\<close> to append. A
  dictionary with one entry is the pair of its key and its value.
\<close>

definition loop_body :: "LemonTizer \<Rightarrow> token \<Rightarrow> error + (string \<times> string) option" where
  "loop_body self tok =
     (case py_and (\<not> token_is_alpha tok)
             (get_attr ''_filter_out_non_alpha'' (filter_out_non_alpha self)) of
        Inl e \<Rightarrow> Inl e
      | Inr is_not_word \<Rightarrow>
     (case py_and (token_is_stop tok)
             (get_attr ''_filter_out_common'' (filter_out_common self)) of
        Inl e \<Rightarrow> Inl e
      | Inr is_common \<Rightarrow>
     (let skip_word = is_not_word \<or> is_common
      in if skip_word then Inr None
         else
     (case get_attr ''_return_just_first_word_of_lemma''
             (return_just_first_word_of_lemma self) of
        Inl e \<Rightarrow> Inl e
      | Inr just_first \<Rightarrow>
     (case (if just_first then first_word (token_lemma tok) else Inr (token_lemma tok)) of
        Inl e \<Rightarrow> Inl e
      | Inr lemma \<Rightarrow>
     (case get_attr ''_convert_output_to_lower'' (convert_output_to_lower self) of
        Inl e \<Rightarrow> Inl e
      | Inr output_lower \<Rightarrow>
          Inr (Some (token_text tok, if output_lower then str_lower lemma else lemma))))))))"

fun lemmatize_tokens ::
  "LemonTizer \<Rightarrow> token list \<Rightarrow> (string \<times> string) list \<Rightarrow> error + (string \<times> string) list" where
  "lemmatize_tokens self [] word_list = Inr word_list"
| "lemmatize_tokens self (tok # doc) word_list =
     (case loop_body self tok of
        Inl e \<Rightarrow> Inl e
      | Inr None \<Rightarrow> lemmatize_tokens self doc word_list
      | Inr (Some word_dict) \<Rightarrow> lemmatize_tokens self doc (word_list @ [word_dict]))"

text \<open>\<open>lemmatize_sentence\<close> returns the outcome and the object as the call leaves it.\<close>

definition lemmatize_sentence ::
  "LemonTizer \<Rightarrow> string \<Rightarrow> (error + (string \<times> string) list) \<times> LemonTizer" where
  "lemmatize_sentence self input_str =
     (case get_attr ''_convert_input_to_lower'' (convert_input_to_lower self) of
        Inl e \<Rightarrow> (Inl e, self)
      | Inr input_lower \<Rightarrow>
          (let input_str = (if input_lower then str_lower input_str else input_str)
           in case get_attr ''_nlp'' (nlp self) of
                Inl e \<Rightarrow> (Inl e, self)
              | Inr pipe \<Rightarrow> (lemmatize_tokens self (pipe input_str) [], self)))"

section \<open>The rules of the specification\<close>

text \<open>A code free of the characters that the pattern syntax gives a meaning to.\<close>

definition plain :: "string \<Rightarrow> bool" where
  "plain s = (\<forall>c \<in> set s. c \<notin> set special_chars)"

text \<open>
  The full rule in the words of the specification: the entry starts with the language
  code and contains the size code somewhere after that prefix.
\<close>

definition full_rule :: "string \<Rightarrow> string \<Rightarrow> string \<Rightarrow> bool" where
  "full_rule language model_size entry =
     (prefix language entry \<and> sublist model_size (drop (length language) entry))"

text \<open>
  \<open>occurs_on_line w s\<close>: \<open>w\<close> occurs in \<open>s\<close> with no line feed before that
  occurrence. \<open>line_rule\<close> is the full rule with the size found on the line of the prefix.
\<close>

fun occurs_on_line :: "string \<Rightarrow> string \<Rightarrow> bool" where
  "occurs_on_line w [] = (w = [])"
| "occurs_on_line w (x # xs) = (prefix w (x # xs) \<or> (x \<noteq> CHR 0x0A \<and> occurs_on_line w xs))"

definition line_rule :: "string \<Rightarrow> string \<Rightarrow> string \<Rightarrow> bool" where
  "line_rule language model_size entry =
     (prefix language entry \<and> occurs_on_line model_size (drop (length language) entry))"

text \<open>The drop rule of the specification, and a lemma with no word in it.\<close>

definition drop_token :: "bool \<Rightarrow> bool \<Rightarrow> token \<Rightarrow> bool" where
  "drop_token non_alpha common tok =
     ((\<not> token_is_alpha tok \<and> non_alpha) \<or> (token_is_stop tok \<and> common))"

definition blank :: "string \<Rightarrow> bool" where
  "blank s = (\<forall>c\<in>set s. is_space c)"

text \<open>The lemma of an emitted pair: truncated to its first word, then lowercased.\<close>

definition final_lemma :: "bool \<Rightarrow> bool \<Rightarrow> string \<Rightarrow> string" where
  "final_lemma just_first output_lower lemma =
     (let lemma = (if just_first
                   then (case first_word lemma of Inl _ \<Rightarrow> lemma | Inr w \<Rightarrow> w)
                   else lemma)
      in if output_lower then str_lower lemma else lemma)"

section \<open>Characters\<close>

lemma special_code:
  "c \<in> set special_chars \<Longrightarrow>
   (of_char c :: nat) \<in> {46, 92, 91, 123, 40, 41, 42, 43, 63, 94, 36, 124}"
  by (auto simp: special_chars_def)

lemma lower_char_code:
  "(of_char (lower_char c) :: nat) =
     (if (65 \<le> (of_char c :: nat) \<and> (of_char c :: nat) \<le> 90) \<or>
         (192 \<le> (of_char c :: nat) \<and> (of_char c :: nat) \<le> 222 \<and> (of_char c :: nat) \<noteq> 215)
      then of_char c + 32 else of_char c)"
  by (auto simp: lower_char_def Let_def)

lemma lower_char_special: "lower_char c \<in> set special_chars \<longleftrightarrow> c \<in> set special_chars"
proof
  assume low: "lower_char c \<in> set special_chars"
  then have "(of_char (lower_char c) :: nat) \<in> {46, 92, 91, 123, 40, 41, 42, 43, 63, 94, 36, 124}"
    by (rule special_code)
  then have "(of_char (lower_char c) :: nat) = of_char c"
    unfolding lower_char_code by (auto split: if_splits)
  then have "lower_char c = c" by simp
  with low show "c \<in> set special_chars" by simp
next
  assume c: "c \<in> set special_chars"
  then have "(of_char c :: nat) \<in> {46, 92, 91, 123, 40, 41, 42, 43, 63, 94, 36, 124}"
    by (rule special_code)
  then have "(of_char (lower_char c) :: nat) = of_char c"
    unfolding lower_char_code by auto
  then have "lower_char c = c" by simp
  with c show "lower_char c \<in> set special_chars" by simp
qed

lemma plain_lower: "plain (str_lower s) = plain s"
  by (simp add: plain_def str_lower_def lower_char_special)

section \<open>Patterns built from plain codes\<close>

lemma parse_plain:
  "plain s \<Longrightarrow> parse acc (s @ rest) = parse (rev (map (\<lambda>c. Atom (Literal c)) s) @ acc) rest"
proof (induction s arbitrary: acc)
  case Nil
  then show ?case by simp
next
  case (Cons c s)
  then have c: "c \<notin> set special_chars" and s: "plain s"
    by (simp_all add: plain_def)
  from c have "parse acc (c # s @ rest) = parse (Atom (Literal c) # acc) (s @ rest)"
    by (simp add: special_chars_def not_modelled_chars_def)
  with Cons.IH [OF s] show ?case by simp
qed

lemma compile_full:
  assumes "plain l" "plain m"
  shows "re_compile (l @ ''.*'' @ m) =
         Inr (map (\<lambda>c. Atom (Literal c)) l @ Max_Repeat 0 None Any # map (\<lambda>c. Atom (Literal c)) m)"
proof -
  let ?lit = "\<lambda>c. Atom (Literal c)"
  have star: "parse (Atom Any # acc) (CHR ''*'' # m) = parse (Max_Repeat 0 None Any # acc) m" for acc
    using assms(2)
    by (cases m) (simp_all add: plain_def special_chars_def not_modelled_chars_def repeat_bounds_def)
  have "re_compile (l @ ''.*'' @ m) = parse (rev (map ?lit l)) (''.*'' @ m)"
    unfolding re_compile_def using parse_plain [OF assms(1), of "[]" "''.*'' @ m"] by simp
  also have "\<dots> = parse (Atom Any # rev (map ?lit l)) (CHR ''*'' # m)"
    by (simp add: not_modelled_chars_def)
  also have "\<dots> = parse (Max_Repeat 0 None Any # rev (map ?lit l)) m"
    by (rule star)
  also have "\<dots> = parse (rev (map ?lit m) @ Max_Repeat 0 None Any # rev (map ?lit l)) []"
    using parse_plain [OF assms(2), of "Max_Repeat 0 None Any # rev (map ?lit l)" "[]"] by simp
  finally show ?thesis by simp
qed

lemma compile_prefix:
  assumes "plain l"
  shows "re_compile (''^'' @ l) = Inr (At_Beginning # map (\<lambda>c. Atom (Literal c)) l)"
proof -
  have "re_compile (''^'' @ l) = parse [At_Beginning] l"
    by (simp add: re_compile_def not_modelled_chars_def)
  also have "\<dots> = parse (rev (map (\<lambda>c. Atom (Literal c)) l) @ [At_Beginning]) []"
    using parse_plain [OF assms, of "[At_Beginning]" "[]"] by simp
  finally show ?thesis by simp
qed

lemma match_literals:
  "re_match_at (map (\<lambda>c. Atom (Literal c)) w) b s = prefix w s"
proof (induction w arbitrary: b s)
  case Nil
  then show ?case by simp
next
  case (Cons c w)
  then show ?case by (cases s) auto
qed

lemma match_star_literals:
  "re_match_at (Max_Repeat 0 None Any # map (\<lambda>c. Atom (Literal c)) w) b s = occurs_on_line w s"
proof (induction s arbitrary: b)
  case Nil
  then show ?case by (simp add: match_literals)
next
  case (Cons x xs)
  then show ?case by (simp add: match_literals)
qed

lemma match_prefix_then:
  "(\<And>b s. re_match_at items b s = P s) \<Longrightarrow>
   re_match_at (map (\<lambda>c. Atom (Literal c)) w @ items) b s = (prefix w s \<and> P (drop (length w) s))"
proof (induction w arbitrary: b s)
  case Nil
  then show ?case by simp
next
  case (Cons c w)
  then show ?case by (cases s) auto
qed

lemma match_full:
  "re_match (map (\<lambda>c. Atom (Literal c)) l @ Max_Repeat 0 None Any # map (\<lambda>c. Atom (Literal c)) m) entry
   = line_rule l m entry"
  unfolding re_match_def line_rule_def
  by (rule match_prefix_then) (rule match_star_literals)

lemma match_prefix:
  "re_match (At_Beginning # map (\<lambda>c. Atom (Literal c)) l) entry = prefix l entry"
  by (simp add: re_match_def match_literals)

text \<open>What \<open>occurs_on_line\<close> says, and that it is stronger than occurring at all.\<close>

lemma occurs_on_line_iff:
  "occurs_on_line w s \<longleftrightarrow> (\<exists>mid rest. s = mid @ w @ rest \<and> CHR 0x0A \<notin> set mid)"
proof (induction s)
  case Nil
  then show ?case by auto
next
  case (Cons x xs)
  show ?case
  proof
    assume "occurs_on_line w (x # xs)"
    then consider "prefix w (x # xs)" | "x \<noteq> CHR 0x0A" "occurs_on_line w xs" by auto
    then show "\<exists>mid rest. x # xs = mid @ w @ rest \<and> CHR 0x0A \<notin> set mid"
    proof cases
      case 1
      then obtain rest where "x # xs = w @ rest" by (auto simp: prefix_def)
      then have "x # xs = [] @ w @ rest \<and> CHR 0x0A \<notin> set ([] :: string)" by simp
      then show ?thesis by blast
    next
      case 2
      with Cons.IH obtain mid rest where "xs = mid @ w @ rest" "CHR 0x0A \<notin> set mid" by auto
      with 2 have "x # xs = (x # mid) @ w @ rest \<and> CHR 0x0A \<notin> set (x # mid)" by simp
      then show ?thesis by blast
    qed
  next
    assume "\<exists>mid rest. x # xs = mid @ w @ rest \<and> CHR 0x0A \<notin> set mid"
    then obtain mid rest where eq: "x # xs = mid @ w @ rest" and nl: "CHR 0x0A \<notin> set mid" by auto
    show "occurs_on_line w (x # xs)"
    proof (cases mid)
      case Nil
      with eq have "prefix w (x # xs)" by (simp add: prefix_def)
      then show ?thesis by simp
    next
      case mid: (Cons y ys)
      with eq nl have "x \<noteq> CHR 0x0A" "xs = ys @ w @ rest" "CHR 0x0A \<notin> set ys" by auto
      with Cons.IH show ?thesis by auto
    qed
  qed
qed

lemma occurs_on_line_sublist: "occurs_on_line w s \<Longrightarrow> sublist w s"
  by (induction s) (auto simp: sublist_Cons_right)

lemma line_rule_full_rule: "line_rule l m entry \<Longrightarrow> full_rule l m entry"
  by (simp add: line_rule_def full_rule_def occurs_on_line_sublist)

section \<open>Resolution with plain codes\<close>

lemma filter_first:
  "\<exists>e\<in>set xs. P e \<Longrightarrow>
   \<exists>before entry after. xs = before @ entry # after \<and> (\<forall>e\<in>set before. \<not> P e) \<and> P entry \<and>
      filter P xs = entry # filter P after"
proof (induction xs)
  case Nil
  then show ?case by simp
next
  case (Cons x xs)
  show ?case
  proof (cases "P x")
    case True
    then have "x # xs = [] @ x # xs \<and> (\<forall>e\<in>set []. \<not> P e) \<and> P x \<and>
      filter P (x # xs) = x # filter P xs"
      by simp
    then show ?thesis by blast
  next
    case False
    with Cons.prems have "\<exists>e\<in>set xs. P e" by auto
    from Cons.IH [OF this] obtain before entry after where
      "xs = before @ entry # after" "\<forall>e\<in>set before. \<not> P e" "P entry"
      "filter P xs = entry # filter P after" by blast
    with False have "x # xs = (x # before) @ entry # after \<and>
      (\<forall>e\<in>set (x # before). \<not> P e) \<and> P entry \<and>
      filter P (x # xs) = entry # filter P after" by simp
    then show ?thesis by blast
  qed
qed

lemma find_model_name_plain:
  assumes "plain language" "plain model_size"
  shows "find_model_name catalog language model_size =
     (case filter (line_rule (str_lower language) (str_lower model_size)) catalog of
        entry # _ \<Rightarrow> Inr entry
      | [] \<Rightarrow>
          Inl (ValueError
                 (if \<exists>e\<in>set catalog. prefix (str_lower language) e
                  then combination_text else no_models_text (str_lower language))
                 (str_lower language) (str_lower model_size)))"
proof -
  let ?l = "str_lower language" and ?m = "str_lower model_size"
  have pl: "plain ?l" and pm: "plain ?m"
    using assms by (simp_all add: plain_lower)
  have f1: "filter (re_match (map (\<lambda>c. Atom (Literal c)) ?l @ Max_Repeat 0 None Any #
              map (\<lambda>c. Atom (Literal c)) ?m)) catalog = filter (line_rule ?l ?m) catalog"
    by (rule filter_cong) (simp_all add: match_full)
  have f2: "filter (re_match (At_Beginning # map (\<lambda>c. Atom (Literal c)) ?l)) catalog
            = filter (prefix ?l) catalog"
    by (rule filter_cong) (simp_all add: match_prefix)
  have ne: "(filter (prefix ?l) catalog \<noteq> []) = (\<exists>e\<in>set catalog. prefix ?l e)"
    by (simp add: filter_empty_conv)
  show ?thesis
    unfolding find_model_name_def Let_def compile_full [OF pl pm] compile_prefix [OF pl]
      sum.case f1 f2
    using ne by (cases "filter (line_rule ?l ?m) catalog") (simp_all add: nth_Cons_0)
qed

section \<open>Claims about model resolution\<close>

text \<open>
  Claim C1, as amended. For a language code and a size code free of pattern characters:
  if at least one catalog entry begins with the lowercased language code and contains the
  lowercased size code after that prefix, with no line feed between the prefix and that
  occurrence, then \<open>find_model_name\<close> returns the first such entry in catalog order: no
  entry before it satisfies the rule.
\<close>

theorem find_model_name_first_match:
  assumes "plain language" "plain model_size"
    and "\<exists>e\<in>set catalog. line_rule (str_lower language) (str_lower model_size) e"
  shows "\<exists>before entry after. catalog = before @ entry # after \<and>
           (\<forall>e\<in>set before. \<not> line_rule (str_lower language) (str_lower model_size) e) \<and>
           line_rule (str_lower language) (str_lower model_size) entry \<and>
           find_model_name catalog language model_size = Inr entry"
proof -
  from filter_first [OF assms(3)] obtain before entry after where
    "catalog = before @ entry # after"
    "\<forall>e\<in>set before. \<not> line_rule (str_lower language) (str_lower model_size) e"
    "line_rule (str_lower language) (str_lower model_size) entry"
    "filter (line_rule (str_lower language) (str_lower model_size)) catalog =
       entry # filter (line_rule (str_lower language) (str_lower model_size)) after"
    by blast
  moreover from this have "find_model_name catalog language model_size = Inr entry"
    by (simp add: find_model_name_plain [OF assms(1,2)])
  ultimately show ?thesis by blast
qed

text \<open>The catalog of the specification's examples, asked for \<open>EN\<close> and \<open>lg\<close>.\<close>

theorem find_model_name_first_match_witness:
  "plain ''EN'' \<and> plain ''lg'' \<and>
   (\<exists>e\<in>set [''en_core_web_sm'', ''en_core_web_lg'', ''es_core_news_lg''].
      line_rule (str_lower ''EN'') (str_lower ''lg'') e) \<and>
   (\<exists>before entry after.
      [''en_core_web_sm'', ''en_core_web_lg'', ''es_core_news_lg''] = before @ entry # after \<and>
      (\<forall>e\<in>set before. \<not> line_rule (str_lower ''EN'') (str_lower ''lg'') e) \<and>
      line_rule (str_lower ''EN'') (str_lower ''lg'') entry \<and>
      find_model_name [''en_core_web_sm'', ''en_core_web_lg'', ''es_core_news_lg''] ''EN'' ''lg''
        = Inr entry) \<and>
   find_model_name [''en_core_web_sm'', ''en_core_web_lg'', ''es_core_news_lg''] ''EN'' ''lg''
     = Inr ''en_core_web_lg''"
proof -
  have h1: "plain ''EN''" and h2: "plain ''lg''"
    by (simp_all add: plain_def special_chars_def)
  have low: "str_lower ''EN'' = ''en''" "str_lower ''lg'' = ''lg''"
    by code_simp+
  have h3: "\<exists>e\<in>set [''en_core_web_sm'', ''en_core_web_lg'', ''es_core_news_lg''].
      line_rule (str_lower ''EN'') (str_lower ''lg'') e"
    unfolding low by (simp add: line_rule_def)
  have v: "find_model_name [''en_core_web_sm'', ''en_core_web_lg'', ''es_core_news_lg''] ''EN'' ''lg''
     = Inr ''en_core_web_lg''"
    by code_simp
  from find_model_name_first_match [OF h1 h2 h3] h1 h2 h3 v show ?thesis by blast
qed

text \<open>
  Claim C1 as stated fails: asked for the language \<open>e.\<close>, the only entry that begins
  with \<open>e.\<close> and contains \<open>lg\<close> after it is the second one, and \<open>find_model_name\<close>
  returns the first, which does not begin with \<open>e.\<close>.
\<close>

theorem find_model_name_first_match_counterexample:
  "full_rule ''e.'' ''lg'' ''e._lg'' \<and> \<not> full_rule ''e.'' ''lg'' ''en_web_lg'' \<and>
   find_model_name [''en_web_lg'', ''e._lg''] ''e.'' ''lg'' = Inr ''en_web_lg''"
  by code_simp

text \<open>
  Claim C3, as amended. For a language code and a size code free of pattern characters
  and a catalog with no full-rule match, \<open>find_model_name\<close> fails with a \<open>ValueError\<close>
  that carries the lowercased language and size codes; its message is the one for an
  unsupported size when some entry starts with the language code and the one for an
  unsupported language when none does. For the empty catalog it is always the latter.
\<close>

theorem find_model_name_error_kind:
  assumes "plain language" "plain model_size"
    and "\<forall>e\<in>set catalog. \<not> full_rule (str_lower language) (str_lower model_size) e"
  shows "find_model_name catalog language model_size =
           Inl (ValueError
                  (if \<exists>e\<in>set catalog. prefix (str_lower language) e
                   then combination_text else no_models_text (str_lower language))
                  (str_lower language) (str_lower model_size)) \<and>
         find_model_name [] language model_size =
           Inl (ValueError (no_models_text (str_lower language))
                  (str_lower language) (str_lower model_size))"
proof -
  have "\<not> line_rule (str_lower language) (str_lower model_size) e" if "e \<in> set catalog" for e
    using assms(3) that line_rule_full_rule by blast
  then have "filter (line_rule (str_lower language) (str_lower model_size)) catalog = []"
    by (simp add: filter_empty_conv)
  then show ?thesis
    by (simp add: find_model_name_plain [OF assms(1,2)])
qed

text \<open>The third example of the specification, and the empty catalog.\<close>

theorem find_model_name_error_kind_witness:
  "plain ''es'' \<and> plain ''sm'' \<and>
   \<not> full_rule (str_lower ''es'') (str_lower ''sm'') ''en_core_web_sm'' \<and>
   \<not> full_rule (str_lower ''es'') (str_lower ''sm'') ''en_core_web_lg'' \<and>
   \<not> full_rule (str_lower ''es'') (str_lower ''sm'') ''es_core_news_lg'' \<and>
   find_model_name [''en_core_web_sm'', ''en_core_web_lg'', ''es_core_news_lg''] ''es'' ''sm'' =
     Inl (ValueError combination_text ''es'' ''sm'') \<and>
   find_model_name [] ''es'' ''sm'' = Inl (ValueError (no_models_text ''es'') ''es'' ''sm'')"
proof -
  have h1: "plain ''es''" and h2: "plain ''sm''"
    by (simp_all add: plain_def special_chars_def)
  have low: "str_lower ''es'' = ''es''" "str_lower ''sm'' = ''sm''"
    by code_simp+
  have h3: "\<forall>e\<in>set [''en_core_web_sm'', ''en_core_web_lg'', ''es_core_news_lg''].
      \<not> full_rule (str_lower ''es'') (str_lower ''sm'') e"
    unfolding low by (simp add: full_rule_def sublist_Cons_right)
  have p: "\<exists>e\<in>set [''en_core_web_sm'', ''en_core_web_lg'', ''es_core_news_lg''].
      prefix ''es'' e"
    by simp
  from find_model_name_error_kind [OF h1 h2 h3] h1 h2 h3 p show ?thesis
    unfolding low by simp
qed

text \<open>
  Claim C3 as stated fails: no entry of the catalog starts with \<open>e.\<close>, so the claim
  asks for the error of an unsupported language, and \<open>find_model_name\<close> raises the one
  of an unsupported size.
\<close>

theorem find_model_name_error_kind_counterexample:
  "\<not> full_rule ''e.'' ''lg'' ''en_sm'' \<and> \<not> prefix ''e.'' ''en_sm'' \<and>
   find_model_name [''en_sm''] ''e.'' ''lg'' = Inl (ValueError combination_text ''e.'' ''lg'')"
  by code_simp




section \<open>Splitting into words\<close>

lemma split_from_Nil_iff: "split_from w s = [] \<longleftrightarrow> w = [] \<and> blank s"
proof (induction s arbitrary: w)
  case Nil
  then show ?case by (simp add: blank_def)
next
  case (Cons c s)
  then show ?case by (simp add: blank_def)
qed

lemma str_split_Nil_iff: "str_split s = [] \<longleftrightarrow> blank s"
  by (simp add: str_split_def split_from_Nil_iff)

lemma first_word_blank: "first_word s = Inl IndexError \<longleftrightarrow> blank s"
  by (simp add: first_word_def str_split_Nil_iff [symmetric] split: list.splits)

lemma split_from_word:
  "\<forall>c\<in>set s. \<not> is_space c \<Longrightarrow> w \<noteq> [] \<or> s \<noteq> [] \<Longrightarrow> split_from w s = [rev w @ s]"
  by (induction s arbitrary: w) auto

lemma split_from_first:
  "split_from w s = x # xs \<Longrightarrow> \<forall>c\<in>set w. \<not> is_space c \<Longrightarrow>
   x \<noteq> [] \<and> (\<forall>c\<in>set x. \<not> is_space c)"
proof (induction s arbitrary: w)
  case Nil
  then show ?case by (auto split: if_splits)
next
  case (Cons c s)
  show ?case
  proof (cases "is_space c")
    case True
    show ?thesis
    proof (cases "w = []")
      case True
      with \<open>is_space c\<close> Cons.prems have "split_from [] s = x # xs" by simp
      from Cons.IH [OF this] show ?thesis by simp
    next
      case False
      with \<open>is_space c\<close> Cons.prems have "x = rev w" by simp
      with False Cons.prems(2) show ?thesis by simp
    qed
  next
    case False
    with Cons.prems have "split_from (c # w) s = x # xs" by simp
    from Cons.IH [OF this] False Cons.prems(2) show ?thesis by simp
  qed
qed

text \<open>Truncating to the first word twice gives what truncating once gives.\<close>

lemma first_word_idem: "first_word s = Inr w \<Longrightarrow> first_word w = Inr w"
proof -
  assume "first_word s = Inr w"
  then obtain ws where "str_split s = w # ws"
    by (simp add: first_word_def split: list.splits)
  then have "split_from [] s = w # ws"
    by (simp add: str_split_def)
  from split_from_first [OF this] have w: "w \<noteq> []" "\<forall>c\<in>set w. \<not> is_space c"
    by simp_all
  from split_from_word [of w "[]"] w have "str_split w = [w]"
    by (simp add: str_split_def)
  then show ?thesis by (simp add: first_word_def)
qed

section \<open>The loop over the tokens\<close>

lemma get_attr_Some: "get_attr name (Some x) = Inr x"
  by (simp add: get_attr_def)

lemma loop_body_configured:
  "loop_body (set_lemma_settings self na co il ol fw) tok =
     (if drop_token na co tok then Inr None
      else case (if fw then first_word (token_lemma tok) else Inr (token_lemma tok)) of
             Inl e \<Rightarrow> Inl e
           | Inr lemma \<Rightarrow> Inr (Some (token_text tok, if ol then str_lower lemma else lemma)))"
  by (simp add: loop_body_def set_lemma_settings_def py_and_def drop_token_def Let_def
      get_attr_Some split: sum.splits)

lemma loop_body_final:
  "loop_body (set_lemma_settings self na co il ol fw) tok =
     (if drop_token na co tok then Inr None
      else if fw \<and> blank (token_lemma tok) then Inl IndexError
      else Inr (Some (token_text tok, final_lemma fw ol (token_lemma tok))))"
proof (cases "first_word (token_lemma tok)")
  case (Inl e)
  then have e: "e = IndexError" by (simp add: first_word_def split: list.splits)
  with Inl have b: "blank (token_lemma tok)" by (simp add: first_word_blank)
  from Inl b e show ?thesis by (simp add: loop_body_configured final_lemma_def)
next
  case (Inr w)
  then have "\<not> blank (token_lemma tok)"
    using first_word_blank [of "token_lemma tok"] by simp
  with Inr show ?thesis by (simp add: loop_body_configured final_lemma_def)
qed

lemma lemmatize_tokens_configured:
  "lemmatize_tokens (set_lemma_settings self na co il ol fw) doc word_list =
     (if fw \<and> (\<exists>tok\<in>set doc. \<not> drop_token na co tok \<and> blank (token_lemma tok))
      then Inl IndexError
      else Inr (word_list @
                map (\<lambda>tok. (token_text tok, final_lemma fw ol (token_lemma tok)))
                  (filter (\<lambda>tok. \<not> drop_token na co tok) doc)))"
proof (induction doc arbitrary: word_list)
  case Nil
  then show ?case by simp
next
  case (Cons tok doc)
  consider "drop_token na co tok"
    | "\<not> drop_token na co tok" "fw \<and> blank (token_lemma tok)"
    | "\<not> drop_token na co tok" "\<not> (fw \<and> blank (token_lemma tok))"
    by blast
  then show ?case
  proof cases
    case 1
    then have "loop_body (set_lemma_settings self na co il ol fw) tok = Inr None"
      by (simp add: loop_body_final)
    then show ?thesis
      unfolding lemmatize_tokens.simps by (simp only: sum.case option.case Cons.IH) (use 1 in auto)
  next
    case 2
    then have "loop_body (set_lemma_settings self na co il ol fw) tok = Inl IndexError"
      by (simp add: loop_body_final)
    then show ?thesis
      unfolding lemmatize_tokens.simps by (simp only: sum.case) (use 2 in auto)
  next
    case 3
    then have "loop_body (set_lemma_settings self na co il ol fw) tok =
                 Inr (Some (token_text tok, final_lemma fw ol (token_lemma tok)))"
      by (simp add: loop_body_final)
    then show ?thesis
      unfolding lemmatize_tokens.simps by (simp only: sum.case option.case Cons.IH) (use 3 in auto)
  qed
qed

text \<open>
  The whole of \<open>lemmatize_sentence\<close> on a loaded facade: it raises exactly when the first
  word is asked for and a token that is kept has a blank lemma, and otherwise returns one
  pair for each token that is kept, in the order of the tokens.
\<close>

lemma lemmatize_sentence_configured:
  assumes "nlp self = Some pipe"
  shows "fst (lemmatize_sentence (set_lemma_settings self na co il ol fw) input_str) =
     (let doc = pipe (if il then str_lower input_str else input_str)
      in if fw \<and> (\<exists>tok\<in>set doc. \<not> drop_token na co tok \<and> blank (token_lemma tok))
         then Inl IndexError
         else Inr (map (\<lambda>tok. (token_text tok, final_lemma fw ol (token_lemma tok)))
                     (filter (\<lambda>tok. \<not> drop_token na co tok) doc)))"
proof -
  have "fst (lemmatize_sentence (set_lemma_settings self na co il ol fw) input_str) =
          lemmatize_tokens (set_lemma_settings self na co il ol fw)
            (pipe (if il then str_lower input_str else input_str)) []"
    using assms by (simp add: lemmatize_sentence_def set_lemma_settings_def get_attr_Some)
  then show ?thesis
    by (simp only: lemmatize_tokens_configured Let_def append_Nil)
qed

text \<open>When the run without filters returns, a run with filters returns no more pairs.\<close>

lemma filters_only_remove:
  assumes "nlp self = Some pipe"
    and "fst (lemmatize_sentence (set_lemma_settings self False False il ol fw) input_str) = Inr out0"
  shows "\<exists>out. fst (lemmatize_sentence (set_lemma_settings self na co il ol fw) input_str) = Inr out \<and>
           length out \<le> length out0"
proof -
  let ?doc = "pipe (if il then str_lower input_str else input_str)"
  have nd: "\<not> drop_token False False tok" for tok
    by (simp add: drop_token_def)
  from assms(2) have ok: "\<not> (fw \<and> (\<exists>tok\<in>set ?doc. blank (token_lemma tok)))"
    and len: "length out0 = length ?doc"
    unfolding lemmatize_sentence_configured [OF assms(1)] Let_def
    by (auto simp: nd split: if_splits)
  from ok have "fst (lemmatize_sentence (set_lemma_settings self na co il ol fw) input_str) =
      Inr (map (\<lambda>tok. (token_text tok, final_lemma fw ol (token_lemma tok)))
             (filter (\<lambda>tok. \<not> drop_token na co tok) ?doc))"
    unfolding lemmatize_sentence_configured [OF assms(1)] Let_def by auto
  with len show ?thesis by simp
qed

text \<open>When the run that truncates returns, it returns as many pairs as the run that does not.\<close>

lemma first_word_keeps_count:
  assumes "nlp self = Some pipe"
    and "fst (lemmatize_sentence (set_lemma_settings self na co il ol True) input_str) = Inr out1"
  shows "\<exists>out0. fst (lemmatize_sentence (set_lemma_settings self na co il ol False) input_str) = Inr out0 \<and>
           length out1 = length out0"
  using assms(2) unfolding lemmatize_sentence_configured [OF assms(1)] Let_def
  by (auto split: if_splits)

lemma loop_body_text:
  "loop_body self tok = Inr (Some (orig, lem)) \<Longrightarrow> orig = token_text tok"
  by (auto simp: loop_body_def Let_def split: sum.splits if_splits)

lemma lemmatize_tokens_text:
  "lemmatize_tokens self doc word_list = Inr out \<Longrightarrow> (orig, lem) \<in> set out \<Longrightarrow>
   (orig, lem) \<in> set word_list \<or> (\<exists>tok\<in>set doc. orig = token_text tok)"
proof (induction doc arbitrary: word_list)
  case Nil
  then show ?case by simp
next
  case (Cons tok doc)
  show ?case
  proof (cases "loop_body self tok")
    case (Inl e)
    with Cons.prems show ?thesis by simp
  next
    case (Inr r)
    show ?thesis
    proof (cases r)
      case None
      with Inr Cons.prems have "lemmatize_tokens self doc word_list = Inr out" by simp
      from Cons.IH [OF this Cons.prems(2)] show ?thesis by auto
    next
      case (Some d)
      with Inr Cons.prems have "lemmatize_tokens self doc (word_list @ [d]) = Inr out" by simp
      from Cons.IH [OF this Cons.prems(2)]
      have "(orig, lem) \<in> set word_list \<or> (orig, lem) = d \<or>
            (\<exists>tok\<in>set doc. orig = token_text tok)"
        by auto
      moreover have "orig = token_text tok" if "(orig, lem) = d"
        using Inr Some that loop_body_text [of self tok orig lem] by simp
      ultimately show ?thesis by auto
    qed
  qed
qed

section \<open>Claims about lemmatization\<close>

text \<open>
  Claim C2 says that \<open>lemmatize_sentence\<close> emits one pair, in order, for each token that
  the drop rule keeps. Here no filter is set, so the rule keeps both tokens, the first
  word of the lemma is asked for, and the lemma of the second token is a line feed:
  \<open>lemma.split()[0]\<close> raises \<open>IndexError\<close> and no pair is returned for either token.
\<close>

theorem lemmatize_sentence_kept_token_no_pair:
  "\<not> drop_token False False
       \<lparr>token_text = ''cats'', token_lemma = ''cat'', token_is_alpha = True, token_is_stop = False\<rparr> \<and>
   \<not> drop_token False False
       \<lparr>token_text = [CHR 0x0A], token_lemma = [CHR 0x0A], token_is_alpha = False,
        token_is_stop = False\<rparr> \<and>
   fst (lemmatize_sentence
     \<lparr>nlp = Some (\<lambda>text.
        [\<lparr>token_text = ''cats'', token_lemma = ''cat'', token_is_alpha = True, token_is_stop = False\<rparr>,
         \<lparr>token_text = [CHR 0x0A], token_lemma = [CHR 0x0A], token_is_alpha = False,
          token_is_stop = False\<rparr>]),
      model_name = Some ''en_core_web_sm'',
      filter_out_non_alpha = Some False, filter_out_common = Some False,
      convert_input_to_lower = Some False, convert_output_to_lower = Some False,
      return_just_first_word_of_lemma = Some True\<rparr>
     (''cats'' @ [CHR 0x0A])) = Inl IndexError"
  by code_simp

text \<open>
  Claim C4 says that \<open>lemmatize_sentence\<close> returns normally for every input and every
  setting, also when the first word is asked for and a lemma is blank. With the tokens of
  \<open>a  b\<close>, where the second space is a token whose lemma is that space, it raises
  \<open>IndexError\<close>.
\<close>

theorem lemmatize_sentence_blank_lemma_raises:
  "fst (lemmatize_sentence
     \<lparr>nlp = Some (\<lambda>text.
        [\<lparr>token_text = ''a'', token_lemma = ''a'', token_is_alpha = True, token_is_stop = True\<rparr>,
         \<lparr>token_text = '' '', token_lemma = '' '', token_is_alpha = False, token_is_stop = False\<rparr>,
         \<lparr>token_text = ''b'', token_lemma = ''b'', token_is_alpha = True, token_is_stop = False\<rparr>]),
      model_name = Some ''en_core_web_sm'',
      filter_out_non_alpha = Some False, filter_out_common = Some False,
      convert_input_to_lower = Some False, convert_output_to_lower = Some False,
      return_just_first_word_of_lemma = Some True\<rparr>
     ''a  b'') = Inl IndexError"
  by code_simp

text \<open>
  Claim C7 says that a run with a filter set returns no more pairs than the same run
  with no filter. With the first word asked for and a token whose lemma is a tabulator,
  the run with no filter raises \<open>IndexError\<close> and returns nothing, and the run that
  filters the tokens that are not alphabetic returns one pair.
\<close>

theorem lemmatize_sentence_filter_after_raise:
  "fst (lemmatize_sentence
     \<lparr>nlp = Some (\<lambda>text.
        [\<lparr>token_text = ''dogs'', token_lemma = ''dog'', token_is_alpha = True, token_is_stop = False\<rparr>,
         \<lparr>token_text = [CHR 0x09], token_lemma = [CHR 0x09], token_is_alpha = False,
          token_is_stop = False\<rparr>]),
      model_name = Some ''en_core_web_sm'',
      filter_out_non_alpha = Some False, filter_out_common = Some False,
      convert_input_to_lower = Some False, convert_output_to_lower = Some False,
      return_just_first_word_of_lemma = Some True\<rparr>
     (''dogs'' @ [CHR 0x09])) = Inl IndexError \<and>
   fst (lemmatize_sentence
     \<lparr>nlp = Some (\<lambda>text.
        [\<lparr>token_text = ''dogs'', token_lemma = ''dog'', token_is_alpha = True, token_is_stop = False\<rparr>,
         \<lparr>token_text = [CHR 0x09], token_lemma = [CHR 0x09], token_is_alpha = False,
          token_is_stop = False\<rparr>]),
      model_name = Some ''en_core_web_sm'',
      filter_out_non_alpha = Some True, filter_out_common = Some False,
      convert_input_to_lower = Some False, convert_output_to_lower = Some False,
      return_just_first_word_of_lemma = Some True\<rparr>
     (''dogs'' @ [CHR 0x09])) = Inr [(''dogs'', ''dog'')]"
  by code_simp

text \<open>
  Claim C8 says that asking for the first word of each lemma leaves the number of pairs
  as it is. With a token whose lemma is two spaces, the run that does not ask returns
  two pairs, and the run that asks raises \<open>IndexError\<close> and returns none.
\<close>

theorem lemmatize_sentence_first_word_loses_pairs:
  "fst (lemmatize_sentence
     \<lparr>nlp = Some (\<lambda>text.
        [\<lparr>token_text = ''New'', token_lemma = ''new'', token_is_alpha = True, token_is_stop = False\<rparr>,
         \<lparr>token_text = ''  '', token_lemma = ''  '', token_is_alpha = False, token_is_stop = False\<rparr>]),
      model_name = Some ''en_core_web_sm'',
      filter_out_non_alpha = Some False, filter_out_common = Some False,
      convert_input_to_lower = Some False, convert_output_to_lower = Some False,
      return_just_first_word_of_lemma = Some False\<rparr>
     ''New   '') = Inr [(''New'', ''new''), (''  '', ''  '')] \<and>
   fst (lemmatize_sentence
     \<lparr>nlp = Some (\<lambda>text.
        [\<lparr>token_text = ''New'', token_lemma = ''new'', token_is_alpha = True, token_is_stop = False\<rparr>,
         \<lparr>token_text = ''  '', token_lemma = ''  '', token_is_alpha = False, token_is_stop = False\<rparr>]),
      model_name = Some ''en_core_web_sm'',
      filter_out_non_alpha = Some False, filter_out_common = Some False,
      convert_input_to_lower = Some False, convert_output_to_lower = Some False,
      return_just_first_word_of_lemma = Some True\<rparr>
     ''New   '') = Inl IndexError"
  by code_simp

text \<open>
  Claim C9. When \<open>convert_input_to_lower\<close> is set, the pipeline is called on the
  lowercased input and on nothing else, so the result is that of the loop over the tokens
  of the lowercased input, and the first component of every pair returned is the text of
  one of these tokens.
\<close>

theorem lemmatize_sentence_input_lowered:
  assumes "nlp self = Some pipe"
  shows "fst (lemmatize_sentence (set_lemma_settings self na co True ol fw) input_str) =
           lemmatize_tokens (set_lemma_settings self na co True ol fw)
             (pipe (str_lower input_str)) [] \<and>
         (fst (lemmatize_sentence (set_lemma_settings self na co True ol fw) input_str) = Inr out \<longrightarrow>
          (\<forall>(orig, lem)\<in>set out. \<exists>tok\<in>set (pipe (str_lower input_str)). orig = token_text tok))"
proof -
  have a: "fst (lemmatize_sentence (set_lemma_settings self na co True ol fw) input_str) =
           lemmatize_tokens (set_lemma_settings self na co True ol fw)
             (pipe (str_lower input_str)) []"
    using assms by (simp add: lemmatize_sentence_def set_lemma_settings_def get_attr_Some)
  show ?thesis
    unfolding a using lemmatize_tokens_text [of _ "pipe (str_lower input_str)" "[]" out] by auto
qed

text \<open>A pipeline that gives one token, the text it is called on.\<close>

theorem lemmatize_sentence_input_lowered_witness:
  "nlp (uninitialized\<lparr>nlp := Some (\<lambda>text.
          [\<lparr>token_text = text, token_lemma = text, token_is_alpha = False,
            token_is_stop = False\<rparr>])\<rparr>) =
     Some (\<lambda>text.
          [\<lparr>token_text = text, token_lemma = text, token_is_alpha = False,
            token_is_stop = False\<rparr>]) \<and>
   fst (lemmatize_sentence
     (set_lemma_settings
        (uninitialized\<lparr>nlp := Some (\<lambda>text.
          [\<lparr>token_text = text, token_lemma = text, token_is_alpha = False,
            token_is_stop = False\<rparr>])\<rparr>)
        False False True False False)
     ''The Cats'') = Inr [(''the cats'', ''the cats'')]"
proof -
  have h: "nlp (uninitialized\<lparr>nlp := Some (\<lambda>text.
          [\<lparr>token_text = text, token_lemma = text, token_is_alpha = False,
            token_is_stop = False\<rparr>])\<rparr>) =
     Some (\<lambda>text.
          [\<lparr>token_text = text, token_lemma = text, token_is_alpha = False,
            token_is_stop = False\<rparr>])"
    by simp
  have low: "str_lower ''The Cats'' = ''the cats''"
    by code_simp
  from lemmatize_sentence_input_lowered [OF h, of False False False False "''The Cats''"]
  have "fst (lemmatize_sentence
     (set_lemma_settings
        (uninitialized\<lparr>nlp := Some (\<lambda>text.
          [\<lparr>token_text = text, token_lemma = text, token_is_alpha = False,
            token_is_stop = False\<rparr>])\<rparr>)
        False False True False False)
     ''The Cats'') =
     lemmatize_tokens (set_lemma_settings
        (uninitialized\<lparr>nlp := Some (\<lambda>text.
          [\<lparr>token_text = text, token_lemma = text, token_is_alpha = False,
            token_is_stop = False\<rparr>])\<rparr>)
        False False True False False)
      [\<lparr>token_text = ''the cats'', token_lemma = ''the cats'', token_is_alpha = False,
            token_is_stop = False\<rparr>] []"
    unfolding low by simp
  also have "\<dots> = Inr [(''the cats'', ''the cats'')]"
    by (simp add: loop_body_configured drop_token_def)
  finally show ?thesis using h by simp
qed

text \<open>
  Claim C10. \<open>lemmatize_sentence\<close> leaves the object as it was, whether it returns or
  raises: the five settings, the stored model name and the loaded pipeline are those of
  before the call.
\<close>

theorem lemmatize_sentence_frame: "snd (lemmatize_sentence self input_str) = self"
  by (simp add: lemmatize_sentence_def Let_def split: sum.splits)

section \<open>Claims about the facade\<close>

text \<open>
  Claim C5, as amended. When the resolution fails with the \<open>ValueError\<close> of an
  unsupported language or size, \<open>init_model\<close> raises that error and leaves the stored
  model name and the loaded pipeline as they were, and the five settings at their
  defaults, all false: the defaults are stored before the name is resolved. A
  construction that fails this way gives no object.
\<close>

theorem init_model_resolution_failure:
  assumes "find_model_name (get_available_models env) language model_size =
             Inl (ValueError t l m)"
  shows "init_model env self language model_size =
           (Inl (ValueError t l m), set_lemma_settings self False False False False False) \<and>
         nlp (snd (init_model env self language model_size)) = nlp self \<and>
         model_name (snd (init_model env self language model_size)) = model_name self \<and>
         new_LemonTizer env language model_size = Inl (ValueError t l m)"
  using assms by (simp add: init_model_def new_LemonTizer_def set_lemma_settings_def)

theorem init_model_resolution_failure_witness:
  "find_model_name
     (get_available_models
        \<lparr>spacy_get_compatibility = [''en_core_web_sm'', ''en_core_web_lg'', ''es_core_news_lg''],
         spacy_is_package = (\<lambda>name. True),
         spacy_cli_download = (\<lambda>name. Inr ()),
         spacy_load = (\<lambda>name. Inr (\<lambda>text. []))\<rparr>) ''es'' ''sm'' =
     Inl (ValueError combination_text ''es'' ''sm'') \<and>
   new_LemonTizer
     \<lparr>spacy_get_compatibility = [''en_core_web_sm'', ''en_core_web_lg'', ''es_core_news_lg''],
      spacy_is_package = (\<lambda>name. True),
      spacy_cli_download = (\<lambda>name. Inr ()),
      spacy_load = (\<lambda>name. Inr (\<lambda>text. []))\<rparr> ''es'' ''sm'' =
     Inl (ValueError combination_text ''es'' ''sm'')"
proof -
  have h: "find_model_name
     (get_available_models
        \<lparr>spacy_get_compatibility = [''en_core_web_sm'', ''en_core_web_lg'', ''es_core_news_lg''],
         spacy_is_package = (\<lambda>name. True),
         spacy_cli_download = (\<lambda>name. Inr ()),
         spacy_load = (\<lambda>name. Inr (\<lambda>text. []))\<rparr>) ''es'' ''sm'' =
     Inl (ValueError combination_text ''es'' ''sm'')"
    by code_simp
  from init_model_resolution_failure [OF h] h show ?thesis by simp
qed

text \<open>
  Claim C5 as stated fails: a facade with \<open>filter_out_common\<close> set is asked to switch to
  a language that the catalog does not have. The call raises and the setting is false.
\<close>

theorem init_model_resolution_failure_counterexample:
  "filter_out_common
     \<lparr>nlp = Some (\<lambda>text. []), model_name = Some ''en_core_web_lg'',
      filter_out_non_alpha = Some False, filter_out_common = Some True,
      convert_input_to_lower = Some False, convert_output_to_lower = Some False,
      return_just_first_word_of_lemma = Some False\<rparr> = Some True \<and>
   fst (init_model
     \<lparr>spacy_get_compatibility = [''en_core_web_sm'', ''en_core_web_lg'', ''es_core_news_lg''],
      spacy_is_package = (\<lambda>name. True),
      spacy_cli_download = (\<lambda>name. Inr ()),
      spacy_load = (\<lambda>name. Inr (\<lambda>text. []))\<rparr>
     \<lparr>nlp = Some (\<lambda>text. []), model_name = Some ''en_core_web_lg'',
      filter_out_non_alpha = Some False, filter_out_common = Some True,
      convert_input_to_lower = Some False, convert_output_to_lower = Some False,
      return_just_first_word_of_lemma = Some False\<rparr>
     ''fr'' ''lg'') = Inl (ValueError (no_models_text ''fr'') ''fr'' ''lg'') \<and>
   filter_out_common (snd (init_model
     \<lparr>spacy_get_compatibility = [''en_core_web_sm'', ''en_core_web_lg'', ''es_core_news_lg''],
      spacy_is_package = (\<lambda>name. True),
      spacy_cli_download = (\<lambda>name. Inr ()),
      spacy_load = (\<lambda>name. Inr (\<lambda>text. []))\<rparr>
     \<lparr>nlp = Some (\<lambda>text. []), model_name = Some ''en_core_web_lg'',
      filter_out_non_alpha = Some False, filter_out_common = Some True,
      convert_input_to_lower = Some False, convert_output_to_lower = Some False,
      return_just_first_word_of_lemma = Some False\<rparr>
     ''fr'' ''lg'')) = Some False"
  by code_simp

end
